theory Spec2Isabelle
  imports Main
begin

section \<open>The billboard form (BillboardForm)\<close>

text \<open>
  The form is a React component. Its local state (the two \<open>useState\<close> flags, the values
  and errors held by \<open>useForm\<close>) is a record; every call it makes to a collaborator
  (axios, the router, the toast, its own state setters) is appended to a trace, oldest
  first. An \<open>async\<close> handler runs up to its \<open>await\<close> when the user event arrives and is
  resumed when the awaited request settles, so each handler is two state transformers.
  A state setter changes the state at once, but what the user can click is what the last
  render put on the page: the state keeps, beside each flag, the value the flag had at
  the last render, and rendering is an event of its own that may come at any time.
  Strings are lists of characters, one per UTF-16 code unit of the JavaScript string.
\<close>

type_synonym json = "(string \<times> string) list"

text \<open>\<open>interface Billboard\<close>; the field \<open>_id\<close> is \<open>b_id\<close>.\<close>

record Billboard =
  b_id :: string
  b_label :: string
  b_imageUrl :: string
  b_userId :: string

text \<open>\<open>useParams()\<close>: the route parameters.\<close>

record params =
  storeId :: string
  billboardId :: string

text \<open>
  A validation message: the text given in the schema, or one of the library's own
  messages (too long for the bound, not a URL, value missing).
\<close>

datatype message = Message string | TooBig nat | InvalidUrl | Required

datatype settled = Fulfilled | Rejected

datatype call =
    SetLoading bool
  | SetOpen bool
  | AxiosPatch string json
  | AxiosPost string json
  | AxiosDelete string
  | RouterPush string
  | RouterRefresh
  | ToastSuccess string
  | ToastError string

text \<open>A handler suspended at its \<open>await\<close>.\<close>

datatype awaiting = AwaitSubmit | AwaitDelete

record screen =
  "open" :: bool
  loading :: bool
  rendered_open :: bool
  rendered_loading :: bool
  formValues :: json
  errors :: "(string \<times> message) list"
  isSubmitted :: bool
  pending :: "awaiting list"
  trace :: "call list"

datatype event =
    ClickSubmit
  | ClickTrash
  | ModalConfirm
  | ModalClose
  | ChangeLabel string
  | ChangeImageUrl string
  | Render
  | Settle nat settled

fun is_request :: "call \<Rightarrow> bool" where
  "is_request (AxiosPatch u d) = True"
| "is_request (AxiosPost u d) = True"
| "is_request (AxiosDelete u) = True"
| "is_request c = False"

fun is_navigation :: "call \<Rightarrow> bool" where
  "is_navigation (RouterPush u) = True"
| "is_navigation c = False"

fun is_delete :: "call \<Rightarrow> bool" where
  "is_delete (AxiosDelete u) = True"
| "is_delete c = False"

text \<open>The calls made between an earlier state and a later one.\<close>

definition calls_since :: "screen \<Rightarrow> screen \<Rightarrow> call list" where
  "calls_since s s' = drop (length (trace s)) (trace s')"

definition emit :: "call \<Rightarrow> screen \<Rightarrow> screen" where
  "emit c s = s\<lparr>trace := trace s @ [c]\<rparr>"

definition setLoading :: "bool \<Rightarrow> screen \<Rightarrow> screen" where
  "setLoading b s = emit (SetLoading b) (s\<lparr>loading := b\<rparr>)"

definition setOpen :: "bool \<Rightarrow> screen \<Rightarrow> screen" where
  "setOpen b s = emit (SetOpen b) (s\<lparr>open := b\<rparr>)"

definition suspend :: "awaiting \<Rightarrow> screen \<Rightarrow> screen" where
  "suspend h s = s\<lparr>pending := pending s @ [h]\<rparr>"

text \<open>A render: the page now shows the current value of both flags.\<close>

definition render :: "screen \<Rightarrow> screen" where
  "render s = s\<lparr>rendered_open := open s, rendered_loading := loading s\<rparr>"

text \<open>
  \<open>useState(false)\<close> twice, \<open>defaultValues: initialData || {label: '', imageUrl: ''}\<close>, and
  the first render.
\<close>

definition defaultValues :: "Billboard option \<Rightarrow> json" where
  "defaultValues initialData =
     (case initialData of
        Some b \<Rightarrow> [(''_id'', b_id b), (''label'', b_label b),
                   (''imageUrl'', b_imageUrl b), (''userId'', b_userId b)]
      | None \<Rightarrow> [(''label'', ''''), (''imageUrl'', '''')])"

definition mount :: "Billboard option \<Rightarrow> screen" where
  "mount initialData =
     \<lparr>open = False, loading = False, rendered_open = False, rendered_loading = False,
      formValues = defaultValues initialData, errors = [], isSubmitted = False,
      pending = [], trace = []\<rparr>"

definition toastMessage :: "Billboard option \<Rightarrow> string" where
  "toastMessage initialData =
     (if initialData \<noteq> None then ''Billboard updated successfully''
      else ''Billboard created successfully'')"

subsection \<open>The schema\<close>

text \<open>
  \<open>formSchema\<close>: \<open>label\<close> is a string of at least 3 and at most 25 code units,
  \<open>imageUrl\<close> a string that is a URL. What counts as a URL is decided by the validation
  library, so it is the parameter \<open>isUrl\<close>. An object schema keeps the keys it declares
  and drops every other key of its input; the resolver hands the parsed object, not the
  raw values, to the submit handler.
\<close>

definition parse_label :: "json \<Rightarrow> message + string" where
  "parse_label raw =
     (case map_of raw ''label'' of
        None \<Rightarrow> Inl Required
      | Some l \<Rightarrow>
          if length l < 3 then Inl (Message ''Store name is required, (min 3 characters).'')
          else if length l > 25 then Inl (TooBig 25)
          else Inr l)"

definition parse_imageUrl :: "(string \<Rightarrow> bool) \<Rightarrow> json \<Rightarrow> message + string" where
  "parse_imageUrl isUrl raw =
     (case map_of raw ''imageUrl'' of
        None \<Rightarrow> Inl Required
      | Some u \<Rightarrow> if isUrl u then Inr u else Inl InvalidUrl)"

fun issue_list :: "string \<Rightarrow> message + string \<Rightarrow> (string \<times> message) list" where
  "issue_list k (Inl m) = [(k, m)]"
| "issue_list k (Inr v) = []"

definition formSchema :: "(string \<Rightarrow> bool) \<Rightarrow> json \<Rightarrow> (string \<times> message) list + json" where
  "formSchema isUrl raw =
     (case (parse_label raw, parse_imageUrl isUrl raw) of
        (Inr l, Inr u) \<Rightarrow> Inr [(''label'', l), (''imageUrl'', u)]
      | (a, b) \<Rightarrow> Inl (issue_list ''label'' a @ issue_list ''imageUrl'' b))"

text \<open>The value stored under one key of the form values.\<close>

fun setValue :: "string \<Rightarrow> string \<Rightarrow> json \<Rightarrow> json" where
  "setValue k v [] = [(k, v)]"
| "setValue k v (p # ps) = (if fst p = k then (k, v) # ps else p # setValue k v ps)"

subsection \<open>The handlers\<close>

text \<open>\<open>onSubmit\<close> up to its \<open>await\<close>: the flag is set, then the request is issued.\<close>

definition onSubmit :: "Billboard option \<Rightarrow> params \<Rightarrow> json \<Rightarrow> screen \<Rightarrow> screen" where
  "onSubmit initialData p data s =
     suspend AwaitSubmit
       (emit (if initialData \<noteq> None
              then AxiosPatch (''/api/'' @ storeId p @ ''/billboards/'' @ billboardId p) data
              else AxiosPost (''/api/'' @ storeId p @ ''/billboards'') data)
          (setLoading True s))"

text \<open>
  \<open>onSubmit\<close> from the settled request on: the rest of the \<open>try\<close> block when the request
  was fulfilled, the \<open>catch\<close> block when it was rejected, and the \<open>finally\<close> block after
  either. The awaited request is the one call of the \<open>try\<close> block that throws: the
  router, the toast and the state setters return normally.
\<close>

definition onSubmit_settled :: "Billboard option \<Rightarrow> params \<Rightarrow> settled \<Rightarrow> screen \<Rightarrow> screen" where
  "onSubmit_settled initialData p r s =
     setLoading False
       (case r of
          Fulfilled \<Rightarrow>
            emit (ToastSuccess (toastMessage initialData))
              (emit RouterRefresh
                 (emit (RouterPush (''/'' @ storeId p @ ''/billboards'')) s))
        | Rejected \<Rightarrow> emit (ToastError ''Something went wrong.'') s)"

definition onDelete :: "params \<Rightarrow> screen \<Rightarrow> screen" where
  "onDelete p s =
     suspend AwaitDelete
       (emit (AxiosDelete (''/api/'' @ storeId p @ ''/billboards/'' @ billboardId p))
          (setLoading True s))"

definition onDelete_settled :: "params \<Rightarrow> settled \<Rightarrow> screen \<Rightarrow> screen" where
  "onDelete_settled p r s =
     setOpen False
       (setLoading False
          (case r of
             Fulfilled \<Rightarrow>
               emit (ToastSuccess ''Billboard deleted successfully'')
                 (emit RouterRefresh
                    (emit (RouterPush (''/'' @ storeId p @ ''/billboards'')) s))
           | Rejected \<Rightarrow>
               emit (ToastError
                  ''Make sure you deleted all categories using this billboard first'') s))"

text \<open>
  \<open>form.handleSubmit(onSubmit)\<close>: the current values are parsed against the schema; issues
  become the form's errors and the handler is not called, otherwise the errors are
  cleared and the handler receives the parsed object. The form counts as submitted once
  this is over: at once when the values are invalid, and when the handler's promise has
  settled when they are valid (see \<open>settle\<close>).
\<close>

definition handleSubmit ::
  "(string \<Rightarrow> bool) \<Rightarrow> (json \<Rightarrow> screen \<Rightarrow> screen) \<Rightarrow> screen \<Rightarrow> screen" where
  "handleSubmit isUrl onValid s =
     (case formSchema isUrl (formValues s) of
        Inl issues \<Rightarrow> s\<lparr>errors := issues, isSubmitted := True\<rparr>
      | Inr data \<Rightarrow> onValid data (s\<lparr>errors := []\<rparr>))"

text \<open>
  \<open>field.onChange\<close> of the field \<open>k\<close>: the value is stored. \<open>useForm\<close> is given no
  validation modes, so nothing is validated on a change before the form was submitted;
  after that, a change runs the schema on the new values and replaces the error of the
  changed field, and of no other field, by what the schema says about that field.
\<close>

definition onChange :: "(string \<Rightarrow> bool) \<Rightarrow> string \<Rightarrow> string \<Rightarrow> screen \<Rightarrow> screen" where
  "onChange isUrl k v s =
     (let s' = s\<lparr>formValues := setValue k v (formValues s)\<rparr>;
          others = filter (\<lambda>e. fst e \<noteq> k) (errors s')
      in if isSubmitted s'
         then (case formSchema isUrl (formValues s') of
                 Inl issues \<Rightarrow>
                   (case map_of issues k of
                      Some m \<Rightarrow> s'\<lparr>errors := others @ [(k, m)]\<rparr>
                    | None \<Rightarrow> s'\<lparr>errors := others\<rparr>)
               | Inr data \<Rightarrow> s'\<lparr>errors := others\<rparr>)
         else s')"

text \<open>
  Modelled from the spec: the component \<open>AlertModal\<close> (components/modals/alert-modal) is
  not among the sources. The spec calls it the confirmation step that gates the delete,
  and lets the submitting flag allow one mutation in flight: the modal offers its
  confirm action while it is open and nothing is loading, and can be closed while it is
  open.
\<close>

definition AlertModal_confirm_enabled :: "bool \<Rightarrow> bool \<Rightarrow> bool" where
  "AlertModal_confirm_enabled isOpen isLoading = (isOpen \<and> \<not> isLoading)"

definition AlertModal_close_enabled :: "bool \<Rightarrow> bool \<Rightarrow> bool" where
  "AlertModal_close_enabled isOpen isLoading = isOpen"

text \<open>
  The request at position \<open>i\<close> of the pending ones settles and its handler resumes. When
  the submit handler has finished, \<open>handleSubmit\<close> marks the form as submitted.
\<close>

definition settle :: "Billboard option \<Rightarrow> params \<Rightarrow> nat \<Rightarrow> settled \<Rightarrow> screen \<Rightarrow> screen" where
  "settle initialData p i r s =
     (if i < length (pending s)
      then (let s' = s\<lparr>pending := take i (pending s) @ drop (Suc i) (pending s)\<rparr>
            in case pending s ! i of
                 AwaitSubmit \<Rightarrow> (onSubmit_settled initialData p r s')\<lparr>isSubmitted := True\<rparr>
               | AwaitDelete \<Rightarrow> onDelete_settled p r s')
      else s)"

text \<open>
  One event. The trash button is on the page only with \<open>initialData\<close>; it, the submit
  button and both inputs are \<open>disabled={loading}\<close>, and the modal is given \<open>isOpen={open}\<close>
  and \<open>loading={loading}\<close>: all with the values of the last render. A disabled control raises
  no event. No handler reads a flag: \<open>onSubmit\<close> and \<open>onDelete\<close> run whenever their
  event is raised.
\<close>

fun step :: "(string \<Rightarrow> bool) \<Rightarrow> Billboard option \<Rightarrow> params \<Rightarrow> screen \<Rightarrow> event \<Rightarrow> screen" where
  "step isUrl initialData p s ClickSubmit =
     (if rendered_loading s then s else handleSubmit isUrl (onSubmit initialData p) s)"
| "step isUrl initialData p s ClickTrash =
     (if initialData \<noteq> None \<and> \<not> rendered_loading s then setOpen True s else s)"
| "step isUrl initialData p s ModalConfirm =
     (if AlertModal_confirm_enabled (rendered_open s) (rendered_loading s)
      then onDelete p s else s)"
| "step isUrl initialData p s ModalClose =
     (if AlertModal_close_enabled (rendered_open s) (rendered_loading s)
      then setOpen False s else s)"
| "step isUrl initialData p s (ChangeLabel v) =
     (if rendered_loading s then s else onChange isUrl ''label'' v s)"
| "step isUrl initialData p s (ChangeImageUrl v) =
     (if rendered_loading s then s else onChange isUrl ''imageUrl'' v s)"
| "step isUrl initialData p s Render = render s"
| "step isUrl initialData p s (Settle i r) = settle initialData p i r s"

definition run ::
  "(string \<Rightarrow> bool) \<Rightarrow> Billboard option \<Rightarrow> params \<Rightarrow> screen \<Rightarrow> event list \<Rightarrow> screen" where
  "run isUrl initialData p s evs = foldl (step isUrl initialData p) s evs"

section \<open>The product page (ProductPage)\<close>

text \<open>
  The page is an \<open>async\<close> server component. The database is a record of what each of its
  calls answers (a rejected promise is \<open>Inl\<close>), \<open>isValidObjectId\<close> a parameter, and the
  page returns the calls it made, in order, with either the exception it threw or the
  props it rendered \<open>ProductForm\<close> with. The price is a JavaScript number that the page
  only copies: its type is the parameter \<open>'n\<close>.
\<close>

datatype oid = ObjectId string

fun toString :: "oid \<Rightarrow> string" where
  "toString (ObjectId h) = h"

datatype error = Error string

text \<open>The documents as the queries return them, with \<open>_id\<close> as \<open>d_id\<close>.\<close>

record 'n ProductDoc =
  d_id :: oid
  d_name :: string
  d_price :: 'n
  d_isFeatured :: bool
  d_isArchived :: bool
  d_categoryId :: oid
  d_sizeId :: oid
  d_colorId :: oid
  d_images :: "string list"

record CategoryDoc =
  cd_id :: oid
  cd_name :: string

record OptionDoc =
  od_id :: oid
  od_name :: string
  od_value :: string

text \<open>\<open>LeanProduct\<close>, \<open>LeanCategory\<close>, and \<open>LeanSize\<close> and \<open>LeanColor\<close>, which have one shape.\<close>

record 'n LeanProduct =
  p_id :: string
  p_name :: string
  p_price :: 'n
  p_isFeatured :: bool
  p_isArchived :: bool
  p_categoryId :: string
  p_sizeId :: string
  p_colorId :: string
  p_images :: "string list"

record LeanCategory =
  c_id :: string
  c_name :: string

record LeanOption =
  o_id :: string
  o_name :: string
  o_value :: string

record 'n database =
  connectDB :: "error option"
  Product_findById :: "string \<Rightarrow> error + 'n ProductDoc option"
  Category_find :: "string \<Rightarrow> error + CategoryDoc list"
  Size_find :: "string \<Rightarrow> error + OptionDoc list"
  Color_find :: "string \<Rightarrow> error + OptionDoc list"

datatype io =
    ConnectDB
  | ProductFindById string
  | CategoryFind string
  | SizeFind string
  | ColorFind string
  | ConsoleError

text \<open>The page's \<open>params\<close>.\<close>

record route =
  productId :: string
  route_storeId :: string

record 'n ProductFormProps =
  initialData :: "'n LeanProduct option"
  categories :: "LeanCategory list"
  sizes :: "LeanOption list"
  colors :: "LeanOption list"

definition lean_product :: "'n ProductDoc \<Rightarrow> 'n LeanProduct" where
  "lean_product found =
     \<lparr>p_id = toString (d_id found), p_name = d_name found, p_price = d_price found,
      p_isFeatured = d_isFeatured found, p_isArchived = d_isArchived found,
      p_categoryId = toString (d_categoryId found), p_sizeId = toString (d_sizeId found),
      p_colorId = toString (d_colorId found), p_images = d_images found\<rparr>"

definition lean_category :: "CategoryDoc \<Rightarrow> LeanCategory" where
  "lean_category c = \<lparr>c_id = toString (cd_id c), c_name = cd_name c\<rparr>"

definition lean_option :: "OptionDoc \<Rightarrow> LeanOption" where
  "lean_option x = \<lparr>o_id = toString (od_id x), o_name = od_name x, o_value = od_value x\<rparr>"

text \<open>
  Step 1 of the page: the product is looked up only when the parameter is not \<open>'new'\<close>
  and is a valid object identifier. The lookup is not inside a \<open>try\<close>: if it rejects,
  the page throws.
\<close>

definition load_product ::
  "(string \<Rightarrow> bool) \<Rightarrow> 'n database \<Rightarrow> route \<Rightarrow> io list \<times> (error + 'n LeanProduct option)" where
  "load_product isValidObjectId db q =
     (if productId q \<noteq> ''new'' \<and> isValidObjectId (productId q)
      then ([ProductFindById (productId q)],
            case Product_findById db (productId q) of
              Inl e \<Rightarrow> Inl e
            | Inr None \<Rightarrow> Inr None
            | Inr (Some found) \<Rightarrow> Inr (Some (lean_product found)))
      else ([], Inr None))"

text \<open>
  Step 2: the three queries are issued together and joined by \<open>Promise.all\<close>, which
  rejects as soon as one of them does; the \<open>catch\<close> logs the error, and the three lists
  keep their initial value \<open>[]\<close>.
\<close>

definition load_dropdowns ::
  "'n database \<Rightarrow> route \<Rightarrow>
     io list \<times> LeanCategory list \<times> LeanOption list \<times> LeanOption list" where
  "load_dropdowns db q =
     (let issued = [CategoryFind (route_storeId q), SizeFind (route_storeId q),
                    ColorFind (route_storeId q)]
      in case (Category_find db (route_storeId q), Size_find db (route_storeId q),
               Color_find db (route_storeId q)) of
           (Inr rawCats, Inr rawSizes, Inr rawColors) \<Rightarrow>
             (issued, map lean_category rawCats, map lean_option rawSizes,
              map lean_option rawColors)
         | _ \<Rightarrow> (issued @ [ConsoleError], [], [], []))"

definition ProductPage ::
  "(string \<Rightarrow> bool) \<Rightarrow> 'n database \<Rightarrow> route \<Rightarrow> io list \<times> (error + 'n ProductFormProps)" where
  "ProductPage isValidObjectId db q =
     (case connectDB db of
        Some e \<Rightarrow> ([ConnectDB], Inl e)
      | None \<Rightarrow>
          (case load_product isValidObjectId db q of
             (io1, Inl e) \<Rightarrow> (ConnectDB # io1, Inl e)
           | (io1, Inr product) \<Rightarrow>
               (case load_dropdowns db q of
                  (io2, cats, szs, cols) \<Rightarrow>
                    (ConnectDB # io1 @ io2,
                     Inr \<lparr>initialData = product, categories = cats,
                          sizes = szs, colors = cols\<rparr>))))"

fun is_product_lookup :: "io \<Rightarrow> bool" where
  "is_product_lookup (ProductFindById i) = True"
| "is_product_lookup c = False"

section \<open>The setup page (SetUpPage)\<close>

text \<open>
  The page reads \<open>isOpen\<close> and \<open>onOpen\<close> from the store hook, registers one effect with
  the dependencies \<open>[isOpen, onOpen]\<close> and returns \<open>null\<close>. The store is a parameter: a
  state \<open>'m\<close>, the flag read from it, and the action on it.
\<close>

datatype react_node = Null | Element string

definition SetUpPage :: "'m \<Rightarrow> react_node" where
  "SetUpPage m = Null"

definition SetUpPage_effect :: "('m \<Rightarrow> bool) \<Rightarrow> ('m \<Rightarrow> 'm) \<Rightarrow> 'm \<Rightarrow> 'm" where
  "SetUpPage_effect isOpen onOpen m = (if \<not> isOpen m then onOpen m else m)"

text \<open>
  Rendering until nothing changes. \<open>deps\<close> is the value of \<open>isOpen\<close> at the render before
  (\<open>None\<close> when the page mounts; \<open>onOpen\<close> is the same function at every render). An
  effect runs after a render whose dependencies differ from those of the render before,
  and a change of the store renders the page again. The fuel bounds the number of
  renders.
\<close>

fun SetUpPage_settle ::
  "nat \<Rightarrow> ('m \<Rightarrow> bool) \<Rightarrow> ('m \<Rightarrow> 'm) \<Rightarrow> bool option \<times> 'm \<Rightarrow> (bool option \<times> 'm) option" where
  "SetUpPage_settle 0 isOpen onOpen (deps, m) = None"
| "SetUpPage_settle (Suc n) isOpen onOpen (deps, m) =
     (if deps = Some (isOpen m) then Some (deps, m)
      else SetUpPage_settle n isOpen onOpen
             (Some (isOpen m), SetUpPage_effect isOpen onOpen m))"

text \<open>
  Modelled from the spec: the hook \<open>useStoreModal\<close> (hooks/use-store-modal) is not among
  the sources. It is the store of the store-creation modal: a flag saying whether the
  modal is open, and an open action that sets it.
\<close>

record StoreModal =
  modal_isOpen :: bool

definition modal_onOpen :: "StoreModal \<Rightarrow> StoreModal" where
  "modal_onOpen m = m\<lparr>modal_isOpen := True\<rparr>"

section \<open>The backing store\<close>

text \<open>
  Modelled from the spec: the persistence endpoint and the list page of billboards are
  not among the sources. A record has an identifier, an entity type, an owning store, named fields and
  the identifiers of the records it refers to. A delete is rejected, and changes
  nothing, while another record still refers to the record; otherwise the record is
  removed. A list fetch maps the records of one entity type and store to display rows.
\<close>

record Record =
  r_id :: string
  r_entity :: string
  r_store :: string
  r_fields :: json
  r_refs :: "string list"

record Row =
  row_id :: string
  row_fields :: json

definition referenced :: "Record list \<Rightarrow> string \<Rightarrow> bool" where
  "referenced st i = (\<exists>r \<in> set st. r_id r \<noteq> i \<and> i \<in> set (r_refs r))"

definition store_delete :: "Record list \<Rightarrow> string \<Rightarrow> settled \<times> Record list" where
  "store_delete st i =
     (if referenced st i then (Rejected, st)
      else (Fulfilled, filter (\<lambda>r. r_id r \<noteq> i) st))"

definition list_fetch :: "Record list \<Rightarrow> string \<Rightarrow> string \<Rightarrow> Row list" where
  "list_fetch st entity sid =
     map (\<lambda>r. \<lparr>row_id = r_id r, row_fields = r_fields r\<rparr>)
       (filter (\<lambda>r. r_entity r = entity \<and> r_store r = sid) st)"

section \<open>Example inputs\<close>

text \<open>
  Concrete inputs for the examples below: a stand-in for the library's URL check, a
  billboard, and route parameters.
\<close>

definition example_isUrl :: "string \<Rightarrow> bool" where
  "example_isUrl u = (take 8 u = ''https://'')"

definition example_billboard :: Billboard where
  "example_billboard =
     \<lparr>b_id = ''b7'', b_label = ''Summer Sale'', b_imageUrl = ''https://host/img.png'',
      b_userId = ''u1''\<rparr>"

definition example_params :: params where
  "example_params = \<lparr>storeId = ''s1'', billboardId = ''b7''\<rparr>"

definition example_store :: "Record list" where
  "example_store =
     [\<lparr>r_id = ''b7'', r_entity = ''billboards'', r_store = ''s1'',
       r_fields = [(''label'', ''Summer Sale'')], r_refs = []\<rparr>,
      \<lparr>r_id = ''c1'', r_entity = ''categories'', r_store = ''s1'',
       r_fields = [(''name'', ''Shoes'')], r_refs = [''b7'']\<rparr>]"

definition example_isValidObjectId :: "string \<Rightarrow> bool" where
  "example_isValidObjectId h = (length h = 24)"

definition example_category :: CategoryDoc where
  "example_category = \<lparr>cd_id = ObjectId ''c1'', cd_name = ''Shoes''\<rparr>"

definition example_size :: OptionDoc where
  "example_size = \<lparr>od_id = ObjectId ''z1'', od_name = ''Large'', od_value = ''L''\<rparr>"

definition example_db :: "error + OptionDoc list \<Rightarrow> nat database" where
  "example_db size_answer =
     \<lparr>connectDB = None,
      Product_findById = (\<lambda>i. Inr None),
      Category_find = (\<lambda>sid. Inr [example_category]),
      Size_find = (\<lambda>sid. size_answer),
      Color_find = (\<lambda>sid. Inr [])\<rparr>"

definition example_route :: "string \<Rightarrow> route" where
  "example_route i = \<lparr>productId = i, route_storeId = ''s1''\<rparr>"

section \<open>Properties of the billboard form\<close>

lemmas form_defs = handleSubmit_def onSubmit_def onSubmit_settled_def onDelete_def
  onDelete_settled_def settle_def suspend_def emit_def setLoading_def setOpen_def
  calls_since_def

lemmas example_defs = example_isUrl_def example_billboard_def example_params_def
  mount_def defaultValues_def
lemmas schema_defs = formSchema_def parse_label_def parse_imageUrl_def

lemmas modal_defs = AlertModal_confirm_enabled_def AlertModal_close_enabled_def

lemma formSchema_Inr:
  "formSchema isUrl raw = Inr data \<Longrightarrow>
     \<exists>l u. map_of raw ''label'' = Some l \<and> map_of raw ''imageUrl'' = Some u \<and>
       3 \<le> length l \<and> length l \<le> 25 \<and> isUrl u \<and>
       data = [(''label'', l), (''imageUrl'', u)]"
  by (auto simp: schema_defs split: option.splits if_splits sum.splits)

text \<open>
  C1. For every form input that the schema accepts, a submit issues exactly one request,
  and none is added when it settles: a POST to the billboards of the current store when
  there is no \<open>initialData\<close>, a PATCH to the billboard named by the store and record
  identifiers of the route when there is. The body has the keys \<open>label\<close> and \<open>imageUrl\<close>
  with the form's current values and no other key, so the record identifier \<open>_id\<close> is
  never submitted, although the form values of an existing billboard hold it.
\<close>

theorem submit_one_request:
  assumes valid: "formSchema isUrl (formValues s) = Inr data"
  shows "filter is_request (calls_since s (handleSubmit isUrl (onSubmit init p) s))
           = [if init = None
              then AxiosPost (''/api/'' @ storeId p @ ''/billboards'') data
              else AxiosPatch (''/api/'' @ storeId p @ ''/billboards/'' @ billboardId p) data]
       \<and> filter is_request
           (calls_since s (settle init p (length (pending s)) r
              (handleSubmit isUrl (onSubmit init p) s)))
           = [if init = None
              then AxiosPost (''/api/'' @ storeId p @ ''/billboards'') data
              else AxiosPatch (''/api/'' @ storeId p @ ''/billboards/'' @ billboardId p) data]
       \<and> map fst data = [''label'', ''imageUrl'']
       \<and> ''_id'' \<notin> fst ` set data
       \<and> map_of data ''label'' = map_of (formValues s) ''label''
       \<and> map_of data ''imageUrl'' = map_of (formValues s) ''imageUrl''"
proof -
  from formSchema_Inr [OF valid] obtain l u where
    d: "data = [(''label'', l), (''imageUrl'', u)]" and
    l: "map_of (formValues s) ''label'' = Some l" and
    u: "map_of (formValues s) ''imageUrl'' = Some u" by blast
  have a: "filter is_request (calls_since s (handleSubmit isUrl (onSubmit init p) s))
           = [if init = None
              then AxiosPost (''/api/'' @ storeId p @ ''/billboards'') data
              else AxiosPatch (''/api/'' @ storeId p @ ''/billboards/'' @ billboardId p) data]"
    using valid by (simp add: form_defs)
  have b: "filter is_request
           (calls_since s (settle init p (length (pending s)) r
              (handleSubmit isUrl (onSubmit init p) s)))
           = [if init = None
              then AxiosPost (''/api/'' @ storeId p @ ''/billboards'') data
              else AxiosPatch (''/api/'' @ storeId p @ ''/billboards/'' @ billboardId p) data]"
    using valid by (cases r) (simp_all add: form_defs)
  show ?thesis using a b d l u by simp
qed

theorem submit_one_request_witness:
  "formSchema example_isUrl (formValues (mount (Some example_billboard)))
     = Inr [(''label'', ''Summer Sale''), (''imageUrl'', ''https://host/img.png'')]
   \<and> filter is_request
         (calls_since (mount (Some example_billboard))
            (settle (Some example_billboard) example_params 0 Rejected
               (handleSubmit example_isUrl (onSubmit (Some example_billboard) example_params)
                  (mount (Some example_billboard)))))
       = [AxiosPatch ''/api/s1/billboards/b7''
            [(''label'', ''Summer Sale''), (''imageUrl'', ''https://host/img.png'')]]
   \<and> map_of (formValues (mount (Some example_billboard))) ''_id'' = Some ''b7''"
proof -
  have h: "formSchema example_isUrl (formValues (mount (Some example_billboard)))
     = Inr [(''label'', ''Summer Sale''), (''imageUrl'', ''https://host/img.png'')]"
    by (simp add: example_defs schema_defs)
  show ?thesis
    using h submit_one_request [OF h, of "Some example_billboard" example_params Rejected]
    by (simp add: example_defs)
qed

text \<open>
  C2. When the request of a valid submit is fulfilled, the form pushes the route of the
  store's billboard list, exactly once, then refreshes the router, then shows a success
  toast whose text is the created one without \<open>initialData\<close> and the updated one with it.
\<close>

theorem submit_success:
  assumes valid: "formSchema isUrl (formValues s) = Inr data"
  shows "calls_since s (settle init p (length (pending s)) Fulfilled
                          (handleSubmit isUrl (onSubmit init p) s))
           = [SetLoading True,
              if init = None
              then AxiosPost (''/api/'' @ storeId p @ ''/billboards'') data
              else AxiosPatch (''/api/'' @ storeId p @ ''/billboards/'' @ billboardId p) data,
              RouterPush (''/'' @ storeId p @ ''/billboards''),
              RouterRefresh,
              ToastSuccess (if init = None then ''Billboard created successfully''
                            else ''Billboard updated successfully''),
              SetLoading False]
       \<and> length (filter is_navigation
            (calls_since s (settle init p (length (pending s)) Fulfilled
                              (handleSubmit isUrl (onSubmit init p) s)))) = 1"
  using valid by (simp add: form_defs toastMessage_def)

theorem submit_success_witness:
  "formSchema example_isUrl
     (formValues (run example_isUrl None example_params (mount None)
        [ChangeLabel ''Summer Sale'', ChangeImageUrl ''https://host/img.png'']))
     = Inr [(''label'', ''Summer Sale''), (''imageUrl'', ''https://host/img.png'')]
   \<and> calls_since
        (run example_isUrl None example_params (mount None)
           [ChangeLabel ''Summer Sale'', ChangeImageUrl ''https://host/img.png''])
        (settle None example_params 0 Fulfilled
           (handleSubmit example_isUrl (onSubmit None example_params)
              (run example_isUrl None example_params (mount None)
                 [ChangeLabel ''Summer Sale'', ChangeImageUrl ''https://host/img.png''])))
       = [SetLoading True,
          AxiosPost ''/api/s1/billboards''
            [(''label'', ''Summer Sale''), (''imageUrl'', ''https://host/img.png'')],
          RouterPush ''/s1/billboards'', RouterRefresh,
          ToastSuccess ''Billboard created successfully'', SetLoading False]"
proof -
  have h: "formSchema example_isUrl
     (formValues (run example_isUrl None example_params (mount None)
        [ChangeLabel ''Summer Sale'', ChangeImageUrl ''https://host/img.png'']))
     = Inr [(''label'', ''Summer Sale''), (''imageUrl'', ''https://host/img.png'')]"
    by (simp add: example_defs schema_defs run_def onChange_def Let_def)
  show ?thesis
    using h submit_success [OF h, of None example_params]
    by (simp add: example_defs run_def onChange_def Let_def)
qed

text \<open>
  C3. When the request of a valid submit is rejected, the form shows the toast
  "Something went wrong.", pushes no route, leaves the form values as they were and
  clears the loading flag, so the submit is enabled again.
\<close>

theorem submit_failure:
  assumes valid: "formSchema isUrl (formValues s) = Inr data"
  shows "calls_since s (settle init p (length (pending s)) Rejected
                          (handleSubmit isUrl (onSubmit init p) s))
           = [SetLoading True,
              if init = None
              then AxiosPost (''/api/'' @ storeId p @ ''/billboards'') data
              else AxiosPatch (''/api/'' @ storeId p @ ''/billboards/'' @ billboardId p) data,
              ToastError ''Something went wrong.'',
              SetLoading False]
       \<and> filter is_navigation
            (calls_since s (settle init p (length (pending s)) Rejected
                              (handleSubmit isUrl (onSubmit init p) s))) = []
       \<and> formValues (settle init p (length (pending s)) Rejected
                        (handleSubmit isUrl (onSubmit init p) s)) = formValues s
       \<and> \<not> loading (settle init p (length (pending s)) Rejected
                        (handleSubmit isUrl (onSubmit init p) s))"
  using valid by (simp add: form_defs)

theorem submit_failure_witness:
  "formSchema example_isUrl (formValues (mount (Some example_billboard)))
     = Inr [(''label'', ''Summer Sale''), (''imageUrl'', ''https://host/img.png'')]
   \<and> calls_since (mount (Some example_billboard))
        (settle (Some example_billboard) example_params 0 Rejected
           (handleSubmit example_isUrl (onSubmit (Some example_billboard) example_params)
              (mount (Some example_billboard))))
       = [SetLoading True,
          AxiosPatch ''/api/s1/billboards/b7''
            [(''label'', ''Summer Sale''), (''imageUrl'', ''https://host/img.png'')],
          ToastError ''Something went wrong.'', SetLoading False]"
proof -
  have h: "formSchema example_isUrl (formValues (mount (Some example_billboard)))
     = Inr [(''label'', ''Summer Sale''), (''imageUrl'', ''https://host/img.png'')]"
    by (simp add: example_defs schema_defs)
  show ?thesis
    using h submit_failure [OF h, of "Some example_billboard" example_params]
    by (simp add: example_defs)
qed

lemma settle_clears_loading:
  "i < length (pending s) \<Longrightarrow> \<not> loading (settle init p i r s)"
  by (cases "pending s ! i"; cases r) (simp_all add: form_defs)

lemma step_Render: "step isUrl init p s Render = render s"
  by simp

lemma step_Settle: "step isUrl init p s (Settle i r) = settle init p i r s"
  by simp

lemma step_ClickSubmit_disabled:
  "rendered_loading s \<Longrightarrow> step isUrl init p s ClickSubmit = s"
  by simp

text \<open>
  C4, as amended. When the page shows the submit button enabled, a valid submit sets the
  loading flag and then issues the request. Once the form has rendered with the flag
  set, the submit button is disabled and a submit is a no-op: two submits with a render
  between them leave the state of one and make one request. When that request settles,
  fulfilled or rejected (a rejection is the exception thrown at the \<open>await\<close>), still one
  request has been made, the flag is clear, and the next render shows the form idle; the
  \<open>finally\<close> block of either handler clears the flag whenever a pending request settles.
\<close>

theorem loading_gates_submit:
  assumes valid: "formSchema isUrl (formValues s) = Inr data"
    and enabled: "\<not> rendered_loading s"
  shows "calls_since s (step isUrl init p s ClickSubmit)
           = [SetLoading True,
              if init = None
              then AxiosPost (''/api/'' @ storeId p @ ''/billboards'') data
              else AxiosPatch (''/api/'' @ storeId p @ ''/billboards/'' @ billboardId p) data]
       \<and> loading (step isUrl init p s ClickSubmit)
       \<and> (\<forall>s'. rendered_loading s' \<longrightarrow> step isUrl init p s' ClickSubmit = s')
       \<and> run isUrl init p s [ClickSubmit, Render, ClickSubmit]
           = run isUrl init p s [ClickSubmit, Render]
       \<and> length (filter is_request
            (calls_since s (run isUrl init p s [ClickSubmit, Render, ClickSubmit]))) = 1
       \<and> length (filter is_request
            (calls_since s (run isUrl init p s
               [ClickSubmit, Render, ClickSubmit, Settle (length (pending s)) r, Render]))) = 1
       \<and> \<not> loading (run isUrl init p s
               [ClickSubmit, Render, ClickSubmit, Settle (length (pending s)) r, Render])
       \<and> \<not> rendered_loading (run isUrl init p s
               [ClickSubmit, Render, ClickSubmit, Settle (length (pending s)) r, Render])
       \<and> (\<forall>s' i r'. i < length (pending s') \<longrightarrow> \<not> loading (settle init p i r' s'))"
proof -
  let ?req = "if init = None
              then AxiosPost (''/api/'' @ storeId p @ ''/billboards'') data
              else AxiosPatch (''/api/'' @ storeId p @ ''/billboards/'' @ billboardId p) data"
  let ?s1 = "step isUrl init p s ClickSubmit"
  let ?s2 = "render ?s1"
  let ?s3 = "settle init p (length (pending s)) r ?s2"
  have a: "calls_since s ?s1 = [SetLoading True, ?req]"
    using valid enabled by (simp add: form_defs)
  have b: "loading ?s1"
    using valid enabled by (simp add: form_defs)
  have c: "\<forall>s'. rendered_loading s' \<longrightarrow> step isUrl init p s' ClickSubmit = s'"
    by simp
  have rl: "rendered_loading ?s2"
    using b by (simp add: render_def del: step.simps)
  have r2: "run isUrl init p s [ClickSubmit, Render] = ?s2"
    by (simp add: run_def step_Render del: step.simps)
  have r3: "run isUrl init p s [ClickSubmit, Render, ClickSubmit] = ?s2"
    using rl by (simp add: run_def step_Render step_ClickSubmit_disabled del: step.simps)
  have d: "run isUrl init p s [ClickSubmit, Render, ClickSubmit]
           = run isUrl init p s [ClickSubmit, Render]"
    by (simp only: r2 r3)
  have t2: "calls_since s ?s2 = calls_since s ?s1"
    by (simp add: calls_since_def render_def del: step.simps)
  have e: "length (filter is_request
            (calls_since s (run isUrl init p s [ClickSubmit, Render, ClickSubmit]))) = 1"
    by (simp add: r3 t2 a del: step.simps)
  have p2: "pending ?s2 = pending s @ [AwaitSubmit]"
    using valid enabled by (simp add: form_defs render_def)
  have r5: "run isUrl init p s
               [ClickSubmit, Render, ClickSubmit, Settle (length (pending s)) r, Render]
            = render ?s3"
    using rl
    by (simp add: run_def step_Render step_Settle step_ClickSubmit_disabled del: step.simps)
  have f: "length (filter is_request (calls_since s (render ?s3))) = 1"
    using valid enabled by (cases r) (simp_all add: form_defs render_def)
  have g: "\<not> loading ?s3"
    by (rule settle_clears_loading) (simp add: p2 del: step.simps)
  then have h: "\<not> loading (render ?s3)" "\<not> rendered_loading (render ?s3)"
    by (simp_all add: render_def del: step.simps)
  have i: "\<forall>s' i r'. i < length (pending s') \<longrightarrow> \<not> loading (settle init p i r' s')"
    by (simp add: settle_clears_loading)
  show ?thesis
    unfolding r5 using a b c d e f h i by blast
qed

theorem loading_gates_submit_witness:
  "formSchema example_isUrl (formValues (mount (Some example_billboard)))
     = Inr [(''label'', ''Summer Sale''), (''imageUrl'', ''https://host/img.png'')]
   \<and> \<not> rendered_loading (mount (Some example_billboard))
   \<and> calls_since (mount (Some example_billboard))
        (step example_isUrl (Some example_billboard) example_params
           (mount (Some example_billboard)) ClickSubmit)
      = [SetLoading True,
         AxiosPatch ''/api/s1/billboards/b7''
           [(''label'', ''Summer Sale''), (''imageUrl'', ''https://host/img.png'')]]
   \<and> length (filter is_request
        (calls_since (mount (Some example_billboard))
           (run example_isUrl (Some example_billboard) example_params
              (mount (Some example_billboard))
              [ClickSubmit, Render, ClickSubmit, Settle 0 Fulfilled, Render]))) = 1"
proof -
  have h: "formSchema example_isUrl (formValues (mount (Some example_billboard)))
     = Inr [(''label'', ''Summer Sale''), (''imageUrl'', ''https://host/img.png'')]"
    by (simp add: example_defs schema_defs)
  have i: "\<not> rendered_loading (mount (Some example_billboard))"
    by (simp add: mount_def)
  have l: "length (pending (mount (Some example_billboard))) = 0"
    by (simp add: mount_def)
  show ?thesis
    using h i loading_gates_submit [OF h i, of "Some example_billboard" example_params Fulfilled]
    unfolding l by (simp add: example_params_def)
qed

text \<open>
  The claim as stated fails: \<open>onSubmit\<close> reads no flag, and the button is disabled only by
  a render. Two submits with no render between them issue two requests, the second
  while the loading flag is set.
\<close>

theorem double_submit_counterexample:
  "filter is_request
     (trace (run example_isUrl (Some example_billboard) example_params
               (mount (Some example_billboard)) [ClickSubmit, ClickSubmit]))
     = [AxiosPatch ''/api/s1/billboards/b7''
          [(''label'', ''Summer Sale''), (''imageUrl'', ''https://host/img.png'')],
        AxiosPatch ''/api/s1/billboards/b7''
          [(''label'', ''Summer Sale''), (''imageUrl'', ''https://host/img.png'')]]
   \<and> loading (run example_isUrl (Some example_billboard) example_params
               (mount (Some example_billboard)) [ClickSubmit])"
  by (simp add: run_def example_defs schema_defs form_defs)

lemma run_snoc:
  "run isUrl init p s (evs @ [e]) = step isUrl init p (run isUrl init p s evs) e"
  by (simp add: run_def)

lemma step_trace:
  "trace (step isUrl init p s e) = trace s @ calls_since s (step isUrl init p s e)"
  by (cases e)
     (auto simp: form_defs modal_defs render_def onChange_def Let_def
           split: sum.splits awaiting.splits settled.splits option.splits)

lemma step_issues_delete:
  "list_ex is_delete (calls_since s (step isUrl init p s e)) \<Longrightarrow>
     e = ModalConfirm \<and> rendered_open s \<and> \<not> rendered_loading s"
  by (cases e)
     (auto simp: form_defs modal_defs render_def onChange_def Let_def
           split: if_splits sum.splits awaiting.splits settled.splits option.splits)

lemma step_shows_modal:
  "open (step isUrl init p s e) \<or> rendered_open (step isUrl init p s e) \<Longrightarrow>
     open s \<or> rendered_open s \<or>
     (e = ClickTrash \<and> init \<noteq> None \<and> calls_since s (step isUrl init p s e) = [SetOpen True])"
  by (cases e)
     (auto simp: form_defs modal_defs render_def onChange_def Let_def
           split: if_splits sum.splits awaiting.splits settled.splits option.splits)

lemma modal_was_opened:
  "open (run isUrl init p (mount init) evs) \<or> rendered_open (run isUrl init p (mount init) evs)
   \<Longrightarrow> init \<noteq> None \<and>
     (\<exists>e1 e2. evs = e1 @ ClickTrash # e2 \<and>
        calls_since (run isUrl init p (mount init) e1)
          (run isUrl init p (mount init) (e1 @ [ClickTrash])) = [SetOpen True])"
proof (induction evs rule: rev_induct)
  case Nil
  then show ?case by (simp add: run_def mount_def)
next
  case (snoc e evs)
  let ?s = "run isUrl init p (mount init) evs"
  from snoc.prems have
    "open (step isUrl init p ?s e) \<or> rendered_open (step isUrl init p ?s e)"
    by (simp only: run_snoc)
  then consider (before) "open ?s \<or> rendered_open ?s"
    | (now) "e = ClickTrash" "init \<noteq> None"
        "calls_since ?s (step isUrl init p ?s e) = [SetOpen True]"
    using step_shows_modal by blast
  then show ?case
  proof cases
    case before
    with snoc.IH obtain e1 e2 where
      i: "init \<noteq> None" and d: "evs = e1 @ ClickTrash # e2" and
      c: "calls_since (run isUrl init p (mount init) e1)
            (run isUrl init p (mount init) (e1 @ [ClickTrash])) = [SetOpen True]"
      by blast
    from d have "evs @ [e] = e1 @ ClickTrash # (e2 @ [e])" by simp
    with i c show ?thesis by blast
  next
    case now
    have "evs @ [e] = evs @ ClickTrash # []" using now by simp
    moreover have "calls_since ?s (run isUrl init p (mount init) (evs @ [ClickTrash]))
                     = [SetOpen True]"
      using now by (simp only: run_snoc)
    ultimately show ?thesis using now by blast
  qed
qed

text \<open>
  C5. Whatever the user does from the mounted form, every delete request in the trace,
  the first as well as any later one, was issued by a confirmation: the form has
  \<open>initialData\<close>, and the events contain a click on the trash button that called
  \<open>setOpen(true)\<close> and, later, a confirmation made while the page showed the modal
  open, whose handler wrote this very request into the trace.
\<close>

theorem delete_needs_confirmation:
  assumes "n < length (trace (run isUrl init p (mount init) evs))"
    and "is_delete (trace (run isUrl init p (mount init) evs) ! n)"
  shows "init \<noteq> None \<and>
     (\<exists>e1 e2 e3. evs = e1 @ ClickTrash # e2 @ ModalConfirm # e3 \<and>
        calls_since (run isUrl init p (mount init) e1)
          (run isUrl init p (mount init) (e1 @ [ClickTrash])) = [SetOpen True] \<and>
        rendered_open (run isUrl init p (mount init) (e1 @ ClickTrash # e2)) \<and>
        length (trace (run isUrl init p (mount init) (e1 @ ClickTrash # e2))) \<le> n \<and>
        n < length (trace (run isUrl init p (mount init)
                             (e1 @ ClickTrash # e2 @ [ModalConfirm]))) \<and>
        trace (run isUrl init p (mount init) (e1 @ ClickTrash # e2 @ [ModalConfirm])) ! n
          = trace (run isUrl init p (mount init) evs) ! n)"
  using assms
proof (induction evs rule: rev_induct)
  case Nil
  then show ?case by (simp add: run_def mount_def)
next
  case (snoc e evs)
  let ?s = "run isUrl init p (mount init) evs"
  let ?new = "calls_since ?s (step isUrl init p ?s e)"
  have tr: "trace (run isUrl init p (mount init) (evs @ [e])) = trace ?s @ ?new"
    by (simp only: run_snoc step_trace [symmetric])
  show ?case
  proof (cases "n < length (trace ?s)")
    case True
    then have same: "trace (run isUrl init p (mount init) (evs @ [e])) ! n = trace ?s ! n"
      by (simp only: tr nth_append if_True)
    with snoc.prems have "is_delete (trace ?s ! n)" by simp
    with snoc.IH True obtain e1 e2 e3 where
      i: "init \<noteq> None" and d: "evs = e1 @ ClickTrash # e2 @ ModalConfirm # e3" and
      c: "calls_since (run isUrl init p (mount init) e1)
            (run isUrl init p (mount init) (e1 @ [ClickTrash])) = [SetOpen True]"
         "rendered_open (run isUrl init p (mount init) (e1 @ ClickTrash # e2))"
         "length (trace (run isUrl init p (mount init) (e1 @ ClickTrash # e2))) \<le> n"
         "n < length (trace (run isUrl init p (mount init)
                               (e1 @ ClickTrash # e2 @ [ModalConfirm])))"
         "trace (run isUrl init p (mount init) (e1 @ ClickTrash # e2 @ [ModalConfirm])) ! n
            = trace ?s ! n"
      by blast
    from d have "evs @ [e] = e1 @ ClickTrash # e2 @ ModalConfirm # (e3 @ [e])" by simp
    moreover from c(5) same have
      "trace (run isUrl init p (mount init) (e1 @ ClickTrash # e2 @ [ModalConfirm])) ! n
         = trace (run isUrl init p (mount init) (evs @ [e])) ! n" by simp
    ultimately show ?thesis using i c(1-4) by blast
  next
    case False
    then have le: "length (trace ?s) \<le> n" by simp
    from snoc.prems(1) have lt: "n - length (trace ?s) < length ?new"
      using le by (simp add: tr)
    from snoc.prems(2) have "is_delete (?new ! (n - length (trace ?s)))"
      using False by (simp add: tr nth_append)
    with lt have "list_ex is_delete ?new"
      unfolding list_ex_iff using nth_mem by blast
    with step_issues_delete have e: "e = ModalConfirm" and shown: "rendered_open ?s"
      by blast+
    from shown modal_was_opened obtain e1 e2 where
      i: "init \<noteq> None" and d: "evs = e1 @ ClickTrash # e2" and
      c: "calls_since (run isUrl init p (mount init) e1)
            (run isUrl init p (mount init) (e1 @ [ClickTrash])) = [SetOpen True]"
      by blast
    have "evs @ [e] = e1 @ ClickTrash # e2 @ ModalConfirm # []" using d e by simp
    moreover have "rendered_open (run isUrl init p (mount init) (e1 @ ClickTrash # e2))"
      using shown d by simp
    moreover have "length (trace (run isUrl init p (mount init) (e1 @ ClickTrash # e2))) \<le> n"
      using le d by simp
    moreover have eq: "e1 @ ClickTrash # e2 @ [ModalConfirm] = evs @ [e]"
      using d e by simp
    moreover have "n < length (trace (run isUrl init p (mount init)
                               (e1 @ ClickTrash # e2 @ [ModalConfirm])))"
      using snoc.prems(1) by (simp only: eq)
    moreover have
      "trace (run isUrl init p (mount init) (e1 @ ClickTrash # e2 @ [ModalConfirm])) ! n
         = trace (run isUrl init p (mount init) (evs @ [e])) ! n"
      by (simp only: eq)
    ultimately show ?thesis using i c by blast
  qed
qed

theorem delete_needs_confirmation_witness:
  "trace (run example_isUrl (Some example_billboard) example_params
            (mount (Some example_billboard))
            [ClickTrash, Render, ModalConfirm, Settle 0 Rejected, Render,
             ClickTrash, Render, ModalConfirm])
     = [SetOpen True, SetLoading True, AxiosDelete ''/api/s1/billboards/b7'',
        ToastError ''Make sure you deleted all categories using this billboard first'',
        SetLoading False, SetOpen False,
        SetOpen True, SetLoading True, AxiosDelete ''/api/s1/billboards/b7'']
   \<and> (\<exists>e1 e2 e3.
        [ClickTrash, Render, ModalConfirm, Settle 0 Rejected, Render,
         ClickTrash, Render, ModalConfirm] = e1 @ ClickTrash # e2 @ ModalConfirm # e3 \<and>
        rendered_open (run example_isUrl (Some example_billboard) example_params
                         (mount (Some example_billboard)) (e1 @ ClickTrash # e2)) \<and>
        length (trace (run example_isUrl (Some example_billboard) example_params
                         (mount (Some example_billboard)) (e1 @ ClickTrash # e2))) \<le> 8 \<and>
        8 < length (trace (run example_isUrl (Some example_billboard) example_params
                         (mount (Some example_billboard))
                         (e1 @ ClickTrash # e2 @ [ModalConfirm]))))"
proof -
  let ?evs = "[ClickTrash, Render, ModalConfirm, Settle 0 Rejected, Render,
               ClickTrash, Render, ModalConfirm]"
  have t: "trace (run example_isUrl (Some example_billboard) example_params
            (mount (Some example_billboard)) ?evs)
     = [SetOpen True, SetLoading True, AxiosDelete ''/api/s1/billboards/b7'',
        ToastError ''Make sure you deleted all categories using this billboard first'',
        SetLoading False, SetOpen False,
        SetOpen True, SetLoading True, AxiosDelete ''/api/s1/billboards/b7'']"
    by (simp add: run_def mount_def form_defs modal_defs render_def example_params_def)
  have n: "8 < length (trace (run example_isUrl (Some example_billboard) example_params
            (mount (Some example_billboard)) ?evs))"
    by (simp only: t) simp
  have d: "is_delete (trace (run example_isUrl (Some example_billboard) example_params
            (mount (Some example_billboard)) ?evs) ! 8)"
    by (simp only: t) simp
  show ?thesis
    using t delete_needs_confirmation [OF n d] by blast
qed

lemma store_delete_rejected:
  "store_delete st i = (Rejected, st') \<Longrightarrow> st' = st"
  by (simp add: store_delete_def split: if_splits)

text \<open>
  C6. The user confirms the delete in the modal the page shows, and the store rejects it.
  The form then shows the toast that tells the user to delete the categories using the
  billboard first and pushes no route; the store is unchanged, so the list fetch returns
  the rows it returned before and the row of the billboard is among them. Whether the
  request is fulfilled or rejected, the modal ends closed and the loading flag clear.
\<close>

theorem delete_failure:
  assumes modal: "rendered_open s" and idle: "\<not> rendered_loading s"
    and rejected: "store_delete st (billboardId p) = (Rejected, st')"
  shows "calls_since s (settle init p (length (pending s)) Rejected
                          (step isUrl init p s ModalConfirm))
           = [SetLoading True,
              AxiosDelete (''/api/'' @ storeId p @ ''/billboards/'' @ billboardId p),
              ToastError ''Make sure you deleted all categories using this billboard first'',
              SetLoading False, SetOpen False]
       \<and> filter is_navigation
            (calls_since s (settle init p (length (pending s)) Rejected
                              (step isUrl init p s ModalConfirm))) = []
       \<and> list_fetch st' ''billboards'' (storeId p) = list_fetch st ''billboards'' (storeId p)
       \<and> (\<forall>b \<in> set st. r_id b = billboardId p \<and> r_entity b = ''billboards''
              \<and> r_store b = storeId p \<longrightarrow>
            \<lparr>row_id = r_id b, row_fields = r_fields b\<rparr>
              \<in> set (list_fetch st' ''billboards'' (storeId p)))
       \<and> (\<forall>r. \<not> open (settle init p (length (pending s)) r
                           (step isUrl init p s ModalConfirm))
              \<and> \<not> loading (settle init p (length (pending s)) r
                           (step isUrl init p s ModalConfirm)))"
proof -
  have st: "st' = st" using rejected by (rule store_delete_rejected)
  have a: "calls_since s (settle init p (length (pending s)) Rejected
                          (step isUrl init p s ModalConfirm))
           = [SetLoading True,
              AxiosDelete (''/api/'' @ storeId p @ ''/billboards/'' @ billboardId p),
              ToastError ''Make sure you deleted all categories using this billboard first'',
              SetLoading False, SetOpen False]"
    using modal idle by (simp add: form_defs modal_defs)
  have b: "\<forall>b \<in> set st. r_id b = billboardId p \<and> r_entity b = ''billboards''
              \<and> r_store b = storeId p \<longrightarrow>
            \<lparr>row_id = r_id b, row_fields = r_fields b\<rparr>
              \<in> set (list_fetch st ''billboards'' (storeId p))"
    by (force simp: list_fetch_def)
  have c: "\<not> open (settle init p (length (pending s)) r
                           (step isUrl init p s ModalConfirm))
              \<and> \<not> loading (settle init p (length (pending s)) r
                           (step isUrl init p s ModalConfirm))" for r
    using modal idle by (cases r) (simp_all add: form_defs modal_defs)
  show ?thesis using a b c by (simp add: st)
qed

theorem delete_failure_witness:
  "rendered_open (run example_isUrl (Some example_billboard) example_params
            (mount (Some example_billboard)) [ClickTrash, Render])
   \<and> store_delete example_store ''b7'' = (Rejected, example_store)
   \<and> calls_since
        (run example_isUrl (Some example_billboard) example_params
           (mount (Some example_billboard)) [ClickTrash, Render])
        (settle (Some example_billboard) example_params 0 Rejected
           (step example_isUrl (Some example_billboard) example_params
              (run example_isUrl (Some example_billboard) example_params
                 (mount (Some example_billboard)) [ClickTrash, Render])
              ModalConfirm))
       = [SetLoading True, AxiosDelete ''/api/s1/billboards/b7'',
          ToastError ''Make sure you deleted all categories using this billboard first'',
          SetLoading False, SetOpen False]
   \<and> list_fetch example_store ''billboards'' ''s1''
       = [\<lparr>row_id = ''b7'', row_fields = [(''label'', ''Summer Sale'')]\<rparr>]"
proof -
  let ?s = "run example_isUrl (Some example_billboard) example_params
            (mount (Some example_billboard)) [ClickTrash, Render]"
  have m: "rendered_open ?s" and i: "\<not> rendered_loading ?s"
    by (simp_all add: run_def mount_def form_defs render_def)
  have r: "store_delete example_store (billboardId example_params) = (Rejected, example_store)"
    by (simp add: store_delete_def referenced_def example_store_def example_params_def)
  have q: "length (pending ?s) = 0"
    by (simp add: run_def mount_def form_defs render_def)
  have f: "list_fetch example_store ''billboards'' ''s1''
       = [\<lparr>row_id = ''b7'', row_fields = [(''label'', ''Summer Sale'')]\<rparr>]"
    by (simp add: list_fetch_def example_store_def)
  have e: "storeId example_params = ''s1''" "billboardId example_params = ''b7''"
    by (simp_all add: example_params_def)
  show ?thesis
    using m r f delete_failure [OF m i r, of "Some example_billboard" example_isUrl]
    unfolding q e by (simp del: step.simps)
qed

text \<open>
  C8. When the label is shorter than 3 or longer than 25, or the image URL is not a URL,
  a submit makes no call at all and suspends no handler, so no create or update request
  is issued; the form's errors then hold one message for each offending field, which
  the \<open>FormMessage\<close> under that field displays.
\<close>

theorem invalid_submit_blocked:
  assumes label: "map_of (formValues s) ''label'' = Some l"
    and url: "map_of (formValues s) ''imageUrl'' = Some u"
    and invalid: "length l < 3 \<or> 25 < length l \<or> \<not> isUrl u"
  shows "calls_since s (step isUrl init p s ClickSubmit) = []
       \<and> pending (step isUrl init p s ClickSubmit) = pending s
       \<and> (\<not> rendered_loading s \<longrightarrow>
            errors (step isUrl init p s ClickSubmit)
              = (if length l < 3
                 then [(''label'', Message ''Store name is required, (min 3 characters).'')]
                 else if 25 < length l then [(''label'', TooBig 25)] else [])
                @ (if isUrl u then [] else [(''imageUrl'', InvalidUrl)])
            \<and> errors (step isUrl init p s ClickSubmit) \<noteq> [])"
  using assms
  by (auto simp: handleSubmit_def calls_since_def schema_defs Let_def)

theorem invalid_submit_blocked_witness:
  "map_of (formValues (mount None)) ''label'' = Some ''''
   \<and> map_of (formValues (mount None)) ''imageUrl'' = Some ''''
   \<and> calls_since (mount None) (step example_isUrl None example_params (mount None) ClickSubmit)
       = []
   \<and> errors (step example_isUrl None example_params (mount None) ClickSubmit)
       = [(''label'', Message ''Store name is required, (min 3 characters).''),
          (''imageUrl'', InvalidUrl)]"
proof -
  have l: "map_of (formValues (mount None)) ''label'' = Some ''''"
    and u: "map_of (formValues (mount None)) ''imageUrl'' = Some ''''"
    by (simp_all add: mount_def defaultValues_def)
  have v: "length '''' < 3 \<or> 25 < length '''' \<or> \<not> example_isUrl ''''"
    by simp
  have i: "\<not> rendered_loading (mount None)"
    by (simp add: mount_def)
  show ?thesis
    using l u i
      invalid_submit_blocked [where s = "mount None" and l = "[]" and u = "[]"
        and isUrl = example_isUrl and init = None and p = example_params, OF l u v]
    by (simp add: example_isUrl_def del: step.simps)
qed

section \<open>Properties of the product page\<close>

lemmas page_defs = ProductPage_def load_product_def load_dropdowns_def
lemmas example_page_defs = example_db_def example_route_def example_category_def
  example_size_def example_isValidObjectId_def lean_category_def lean_option_def

text \<open>
  C7, as amended. Once the page is connected and past the product lookup, it always
  renders the form. If the three dropdown queries all succeed, the form receives each
  collection, mapped to its lean shape. If any one of them fails, the join fails as a
  whole: the error is logged and the form receives three empty lists, also for the
  queries that succeeded.
\<close>

theorem dropdown_join:
  assumes conn: "connectDB db = None"
    and product: "snd (load_product isValidObjectId db q) = Inr product"
  shows "(\<forall>a b c. Category_find db (route_storeId q) = Inr a
              \<and> Size_find db (route_storeId q) = Inr b
              \<and> Color_find db (route_storeId q) = Inr c \<longrightarrow>
            snd (ProductPage isValidObjectId db q)
              = Inr \<lparr>initialData = product, categories = map lean_category a,
                     sizes = map lean_option b, colors = map lean_option c\<rparr>)
       \<and> ((\<exists>e. Category_find db (route_storeId q) = Inl e)
            \<or> (\<exists>e. Size_find db (route_storeId q) = Inl e)
            \<or> (\<exists>e. Color_find db (route_storeId q) = Inl e) \<longrightarrow>
            snd (ProductPage isValidObjectId db q)
              = Inr \<lparr>initialData = product, categories = [], sizes = [], colors = []\<rparr>
            \<and> last (fst (ProductPage isValidObjectId db q)) = ConsoleError)"
proof -
  obtain io1 where lp: "load_product isValidObjectId db q = (io1, Inr product)"
    using product by (cases "load_product isValidObjectId db q") simp
  show ?thesis
    using conn lp
    by (auto simp: ProductPage_def load_dropdowns_def Let_def split: sum.splits)
qed

theorem dropdown_join_witness:
  "snd (ProductPage example_isValidObjectId (example_db (Inr [example_size]))
          (example_route ''new''))
     = Inr \<lparr>initialData = None,
            categories = [\<lparr>c_id = ''c1'', c_name = ''Shoes''\<rparr>],
            sizes = [\<lparr>o_id = ''z1'', o_name = ''Large'', o_value = ''L''\<rparr>], colors = []\<rparr>
   \<and> snd (ProductPage example_isValidObjectId (example_db (Inl (Error ''timeout'')))
          (example_route ''new''))
     = Inr \<lparr>initialData = None, categories = [], sizes = [], colors = []\<rparr>"
proof -
  have c: "connectDB (example_db a) = None" for a
    by (simp add: example_db_def)
  have p: "snd (load_product example_isValidObjectId (example_db a) (example_route ''new''))
             = Inr None" for a
    by (simp add: load_product_def example_route_def)
  show ?thesis
    using dropdown_join [OF c p, of "Inr [example_size]"]
      dropdown_join [OF c p, of "Inl (Error ''timeout'')"]
    by (simp add: example_page_defs)
qed

text \<open>
  The claim as stated fails: the categories query answers one category, the sizes query
  is rejected, and the form receives no category.
\<close>

theorem dropdown_join_counterexample:
  "Category_find (example_db (Inl (Error ''timeout''))) ''s1'' = Inr [example_category]
   \<and> Size_find (example_db (Inl (Error ''timeout''))) ''s1'' = Inl (Error ''timeout'')
   \<and> Color_find (example_db (Inl (Error ''timeout''))) ''s1'' = Inr []
   \<and> snd (ProductPage example_isValidObjectId (example_db (Inl (Error ''timeout'')))
            (example_route ''new''))
       = Inr \<lparr>initialData = None, categories = [], sizes = [], colors = []\<rparr>
   \<and> map lean_category [example_category] \<noteq> []"
  by (simp add: page_defs example_page_defs)

text \<open>
  C9. When the route parameter is \<open>'new'\<close> or is not a valid object identifier, the page
  makes no product lookup, any form it renders has \<open>initialData\<close> null, and it does
  render one once the database is connected. When the parameter is a valid identifier
  and the lookup finds no document, the page makes that one lookup and renders the form
  with \<open>initialData\<close> null.
\<close>

theorem create_mode_fallback:
  "(productId q = ''new'' \<or> \<not> isValidObjectId (productId q) \<longrightarrow>
      filter is_product_lookup (fst (ProductPage isValidObjectId db q)) = []
      \<and> (\<forall>props. snd (ProductPage isValidObjectId db q) = Inr props \<longrightarrow>
            initialData props = None)
      \<and> (connectDB db = None \<longrightarrow>
            (\<exists>props. snd (ProductPage isValidObjectId db q) = Inr props)))
   \<and> (productId q \<noteq> ''new'' \<and> isValidObjectId (productId q)
        \<and> connectDB db = None \<and> Product_findById db (productId q) = Inr None \<longrightarrow>
      filter is_product_lookup (fst (ProductPage isValidObjectId db q))
        = [ProductFindById (productId q)]
      \<and> (\<exists>props. snd (ProductPage isValidObjectId db q) = Inr props
            \<and> initialData props = None))"
  by (auto simp: page_defs Let_def split: option.splits sum.splits prod.splits)

theorem create_mode_fallback_witness:
  "snd (ProductPage example_isValidObjectId (example_db (Inr [])) (example_route ''new''))
     = Inr \<lparr>initialData = None,
            categories = [\<lparr>c_id = ''c1'', c_name = ''Shoes''\<rparr>], sizes = [], colors = []\<rparr>
   \<and> fst (ProductPage example_isValidObjectId (example_db (Inr [])) (example_route ''new''))
     = [ConnectDB, CategoryFind ''s1'', SizeFind ''s1'', ColorFind ''s1'']
   \<and> fst (ProductPage example_isValidObjectId (example_db (Inr []))
            (example_route ''65f0c0ffee65f0c0ffee65f0''))
     = [ConnectDB, ProductFindById ''65f0c0ffee65f0c0ffee65f0'',
        CategoryFind ''s1'', SizeFind ''s1'', ColorFind ''s1'']
   \<and> snd (ProductPage example_isValidObjectId (example_db (Inr []))
            (example_route ''65f0c0ffee65f0c0ffee65f0''))
     = Inr \<lparr>initialData = None,
            categories = [\<lparr>c_id = ''c1'', c_name = ''Shoes''\<rparr>], sizes = [], colors = []\<rparr>"
  using create_mode_fallback [of "example_route ''new''" example_isValidObjectId
      "example_db (Inr [])"]
    create_mode_fallback [of "example_route ''65f0c0ffee65f0c0ffee65f0''"
      example_isValidObjectId "example_db (Inr [])"]
  by (simp add: page_defs example_page_defs)

section \<open>Properties of the setup page\<close>

text \<open>
  C10. The page renders \<open>null\<close>. Its effect calls the open action exactly when the
  modal is closed. If the open action opens the modal, then rendering from a mount, or
  from a render after the modal was open, settles within three rounds, with the modal
  open.
\<close>

theorem setup_page_opens_modal:
  assumes open_action: "\<forall>m. isOpen (onOpen m)"
  shows "SetUpPage m = Null
       \<and> (\<not> isOpen m \<longrightarrow> SetUpPage_effect isOpen onOpen m = onOpen m)
       \<and> (isOpen m \<longrightarrow> SetUpPage_effect isOpen onOpen m = m)
       \<and> (deps \<noteq> Some False \<longrightarrow>
            (\<exists>m'. SetUpPage_settle (n + 3) isOpen onOpen (deps, m) = Some (Some True, m')
                \<and> isOpen m'))"
proof -
  have fuel: "n + 3 = Suc (Suc (Suc n))" by simp
  have "\<exists>m'. SetUpPage_settle (n + 3) isOpen onOpen (deps, m) = Some (Some True, m')
                \<and> isOpen m'" if "deps \<noteq> Some False"
    using that open_action unfolding fuel
    by (cases deps) (auto simp: SetUpPage_effect_def)
  then show ?thesis
    by (simp add: SetUpPage_def SetUpPage_effect_def)
qed

theorem setup_page_opens_modal_witness:
  "(\<forall>m. modal_isOpen (modal_onOpen m))
   \<and> SetUpPage_settle 3 modal_isOpen modal_onOpen (None, \<lparr>modal_isOpen = False\<rparr>)
       = Some (Some True, \<lparr>modal_isOpen = True\<rparr>)
   \<and> SetUpPage_settle 3 modal_isOpen modal_onOpen (Some True, \<lparr>modal_isOpen = False\<rparr>)
       = Some (Some True, \<lparr>modal_isOpen = True\<rparr>)"
proof -
  have h: "\<forall>m. modal_isOpen (modal_onOpen m)"
    by (simp add: modal_onOpen_def)
  show ?thesis
    using h
      setup_page_opens_modal [where isOpen = modal_isOpen and onOpen = modal_onOpen
        and m = "\<lparr>modal_isOpen = False\<rparr>" and deps = None and n = 0, OF h]
      setup_page_opens_modal [where isOpen = modal_isOpen and onOpen = modal_onOpen
        and m = "\<lparr>modal_isOpen = False\<rparr>" and deps = "Some True" and n = 0, OF h]
    by (simp add: numeral_3_eq_3 SetUpPage_effect_def modal_onOpen_def)
qed

end
